theory Spec2Isabelle
  imports Main "HOL-Library.Sublist"
begin

section \<open>Values, records and the record store\<close>

text \<open>
  The controller \<^verbatim>\<open>app_attendance.py\<close> handles request values that are absent
  (Python None, what \<^verbatim>\<open>request.form.get\<close> gives for a missing key), an integer
  (the int path parameter of the REST delete route) or text (form fields and string
  path parameters).
\<close>

datatype pyval = PyNone | PyInt int | PyStr string

text \<open>
  The entity \<^verbatim>\<open>School\<close> of \<^verbatim>\<open>attendance_model\<close>: an integer key, which the
  controller filters on under the name \<^verbatim>\<open>userID\<close>, and four text fields.
\<close>

record school =
  userID :: int
  name :: string
  number :: string
  teacher :: string
  subject :: string

text \<open>
  The table behind \<^verbatim>\<open>School.query\<close>: its rows in storage order and the key the
  next insert is given.
\<close>

record store =
  rows :: "school list"
  next_id :: int

text \<open>
  The data model's invariant: keys identify rows, numbers identify rows, and every key
  in use was assigned before the next one.
\<close>

definition wf_store :: "store \<Rightarrow> bool" where
  "wf_store s \<longleftrightarrow>
     distinct (map userID (rows s)) \<and> distinct (map number (rows s))
     \<and> list_all (\<lambda>r. userID r < next_id s) (rows s)"

section \<open>The entity's methods\<close>

text \<open>
  Modelled from the spec: \<^verbatim>\<open>School.read\<close> of \<^verbatim>\<open>attendance_model\<close>, which is not
  part of the controller file. The spec gives the representation of a record as the
  object with the members id, name, number, teacher, subject.
\<close>

definition School_read :: "school \<Rightarrow> (string \<times> pyval) list" where
  "School_read r =
     [(''id'', PyInt (userID r)), (''name'', PyStr (name r)), (''number'', PyStr (number r)),
      (''teacher'', PyStr (teacher r)), (''subject'', PyStr (subject r))]"

text \<open>
  Modelled from the spec: \<^verbatim>\<open>School(...).create()\<close> of \<^verbatim>\<open>attendance_model\<close>.
  The spec says that a create is rejected on malformed input or on a number that is
  already present, that it then reports failure instead of inserting, and that the key is
  assigned by the system and never reused. The fields of a record are text, so a
  constructor argument that is not text is malformed; what else is malformed the spec
  leaves open, and the predicate \<open>valid\<close> stands for it. A rejected create returns None
  and the store as it was; an accepted one appends the row and returns it.
\<close>

definition School_create ::
  "(string \<Rightarrow> string \<Rightarrow> string \<Rightarrow> string \<Rightarrow> bool) \<Rightarrow> store \<Rightarrow>
     pyval \<Rightarrow> pyval \<Rightarrow> pyval \<Rightarrow> pyval \<Rightarrow> store \<times> school option" where
  "School_create valid s a b c d =
     (case (a, b, c, d) of
        (PyStr nm, PyStr num, PyStr tch, PyStr sbj) \<Rightarrow>
          if valid nm num tch sbj \<and> num \<notin> set (map number (rows s))
          then (let po = \<lparr>userID = next_id s, name = nm, number = num,
                           teacher = tch, subject = sbj\<rparr>
                in (s\<lparr>rows := rows s @ [po], next_id := next_id s + 1\<rparr>, Some po))
          else (s, None)
      | _ \<Rightarrow> (s, None))"

text \<open>
  Modelled from the spec: \<^verbatim>\<open>School.update\<close> of \<^verbatim>\<open>attendance_model\<close>, called by the
  controller as \<^verbatim>\<open>po.update(name)\<close> and as \<^verbatim>\<open>po.update(name, teacher, subject)\<close>.
  The spec says that update mutates the record in place, the name alone or the name,
  the teacher and the subject. A field is text, so \<open>assign\<close> stores an argument that is
  text and keeps the field for one that is not. The object \<open>po\<close> is a row of the table,
  found by its key.
\<close>

definition assign :: "pyval \<Rightarrow> string \<Rightarrow> string" where
  "assign v old = (case v of PyStr t \<Rightarrow> t | _ \<Rightarrow> old)"

definition School_update ::
  "store \<Rightarrow> school \<Rightarrow> pyval \<Rightarrow> (pyval \<times> pyval) option \<Rightarrow> store \<times> school" where
  "School_update s po a rest =
     (let po' = (case rest of
                   None \<Rightarrow> po\<lparr>name := assign a (name po)\<rparr>
                 | Some (c, d) \<Rightarrow> po\<lparr>name := assign a (name po),
                                     teacher := assign c (teacher po),
                                     subject := assign d (subject po)\<rparr>)
      in (s\<lparr>rows := map (\<lambda>r. if userID r = userID po then po' else r) (rows s)\<rparr>, po'))"

text \<open>
  Modelled from the spec: \<^verbatim>\<open>School.delete\<close> of \<^verbatim>\<open>attendance_model\<close>. The spec
  says that delete destroys the record; the row is found by its key.
\<close>

definition School_delete :: "store \<Rightarrow> school \<Rightarrow> store" where
  "School_delete s po = s\<lparr>rows := filter (\<lambda>r. userID r \<noteq> userID po) (rows s)\<rparr>"

section \<open>SQL pattern matching\<close>

text \<open>
  The operator behind \<^verbatim>\<open>Column.ilike\<close>: SQL LIKE on the lower-cased operands. In a
  pattern the character percent matches any run of characters, also the empty one, and
  the underscore matches exactly one character; every other character matches itself.
  The controller passes no escape character, and the matcher has none. Lower-casing
  maps the letters A to Z to a to z and leaves every other character as it is.
\<close>

definition lower_char :: "char \<Rightarrow> char" where
  "lower_char c =
     (let n = (of_char c :: nat) in if 65 \<le> n \<and> n \<le> 90 then char_of (n + 32) else c)"

definition lower :: "string \<Rightarrow> string" where
  "lower xs = map lower_char xs"

fun like :: "string \<Rightarrow> string \<Rightarrow> bool" where
  "like [] [] = True"
| "like [] (c # cs) = False"
| "like (p # ps) [] = (p = CHR ''%'' \<and> like ps [])"
| "like (p # ps) (c # cs) =
     (if p = CHR ''%'' then like ps (c # cs) \<or> like (p # ps) cs
      else (p = CHR ''_'' \<or> p = c) \<and> like ps cs)"

definition ilike :: "string \<Rightarrow> string \<Rightarrow> bool" where
  "ilike txt pat = like (lower pat) (lower txt)"

section \<open>Table queries\<close>

text \<open>
  \<^verbatim>\<open>users_all\<close> reads every row; \<^verbatim>\<open>users_ilike\<close> formats the term into
  \<^verbatim>\<open>"%{}%"\<close> and keeps the rows whose name or number matches that pattern.
\<close>

definition users_all :: "store \<Rightarrow> (string \<times> pyval) list list" where
  "users_all s = map School_read (rows s)"

definition users_ilike :: "store \<Rightarrow> string \<Rightarrow> (string \<times> pyval) list list" where
  "users_ilike s term =
     (let term' = ''%'' @ term @ ''%'';
          table = filter (\<lambda>r. ilike (name r) term' \<or> ilike (number r) term') (rows s)
      in map School_read table)"

text \<open>
  The comparison of the integer key column with a request value. An integer is compared
  as it is and an absent value matches no row. For a text value the database converts:
  the conversion is a parameter, \<open>to_id\<close>, since the database is not part of the
  controller.
\<close>

definition key_matches :: "(string \<Rightarrow> int option) \<Rightarrow> int \<Rightarrow> pyval \<Rightarrow> bool" where
  "key_matches to_id k v =
     (case v of PyNone \<Rightarrow> False | PyInt n \<Rightarrow> k = n | PyStr t \<Rightarrow> to_id t = Some k)"

text \<open>
  \<^verbatim>\<open>filter_by(...).first()\<close>: the first row in storage order that matches, or None.
\<close>

definition user_by_id :: "(string \<Rightarrow> int option) \<Rightarrow> store \<Rightarrow> pyval \<Rightarrow> school option" where
  "user_by_id to_id s userid = find (\<lambda>r. key_matches to_id (userID r) userid) (rows s)"

definition user_by_number :: "store \<Rightarrow> string \<Rightarrow> school option" where
  "user_by_number s num = find (\<lambda>r. number r = num) (rows s)"

section \<open>Requests and responses\<close>

text \<open>
  A form body is the list of its key and value pairs; \<^verbatim>\<open>request.form\<close> is false when
  the list is empty, and \<^verbatim>\<open>request.form.get\<close> gives the first value of a key, or None.
\<close>

type_synonym form = "(string \<times> string) list"

definition form_get :: "form \<Rightarrow> string \<Rightarrow> pyval" where
  "form_get f k = (case map_of f k of None \<Rightarrow> PyNone | Some v \<Rightarrow> PyStr v)"

text \<open>
  A handler answers with a rendered template and its table, a redirect to an endpoint,
  or a JSON body with a status code (200 where the handler gives none).
\<close>

datatype body = Obj "(string \<times> pyval) list" | Arr "(string \<times> pyval) list list"

datatype response =
    Render string "(string \<times> pyval) list list"
  | Redirect string
  | Json body nat

definition message :: "string \<Rightarrow> body" where
  "message m = Obj [(''message'', PyStr m)]"

text \<open>The decimal numeral of an integer, as an f-string prints it.\<close>

fun str_nat :: "nat \<Rightarrow> string" where
  "str_nat n =
     (if n < 10 then [char_of (48 + n)] else str_nat (n div 10) @ [char_of (48 + n mod 10)])"

declare str_nat.simps [simp del]

definition str_int :: "int \<Rightarrow> string" where
  "str_int i = (if i < 0 then CHR ''-'' # str_nat (nat (- i)) else str_nat (nat i))"

section \<open>The page controller\<close>

text \<open>
  Each handler takes the store and the form body and gives the store it leaves and its
  answer. The mutating handlers act only when the form is not empty, drop what the
  entity's method returns, and answer with \<^verbatim>\<open>redirect(url_for('attendance'))\<close>;
  \<^verbatim>\<open>crud\<close> and \<^verbatim>\<open>read\<close> change nothing and render the template with a table.
\<close>

definition crud :: "store \<Rightarrow> response" where
  "crud s = Render ''attendance.html'' (users_all s)"

definition create ::
  "(string \<Rightarrow> string \<Rightarrow> string \<Rightarrow> string \<Rightarrow> bool) \<Rightarrow> store \<Rightarrow> form \<Rightarrow> store \<times> response" where
  "create valid s f =
     (let s' = (if f \<noteq> []
                then fst (School_create valid s (form_get f ''name'') (form_get f ''number'')
                            (form_get f ''teacher'') (form_get f ''subject''))
                else s)
      in (s', Redirect ''attendance''))"

definition read :: "(string \<Rightarrow> int option) \<Rightarrow> store \<Rightarrow> form \<Rightarrow> response" where
  "read to_id s f =
     (let table = (if f \<noteq> []
                   then (case user_by_id to_id s (form_get f ''userid'') of
                           Some po \<Rightarrow> [School_read po]
                         | None \<Rightarrow> [])
                   else [])
      in Render ''attendance.html'' table)"

definition update :: "(string \<Rightarrow> int option) \<Rightarrow> store \<Rightarrow> form \<Rightarrow> store \<times> response" where
  "update to_id s f =
     (let s' = (if f \<noteq> []
                then (case user_by_id to_id s (form_get f ''userid'') of
                        Some po \<Rightarrow> fst (School_update s po (form_get f ''name'') None)
                      | None \<Rightarrow> s)
                else s)
      in (s', Redirect ''attendance''))"

definition delete :: "(string \<Rightarrow> int option) \<Rightarrow> store \<Rightarrow> form \<Rightarrow> store \<times> response" where
  "delete to_id s f =
     (let s' = (if f \<noteq> []
                then (case user_by_id to_id s (form_get f ''userid'') of
                        Some po \<Rightarrow> School_delete s po
                      | None \<Rightarrow> s)
                else s)
      in (s', Redirect ''attendance''))"

section \<open>The REST resources\<close>

text \<open>
  The methods of the resource classes of \<^verbatim>\<open>SchoolAPI\<close>: \<^verbatim>\<open>_Create.post\<close>,
  \<^verbatim>\<open>_Read.get\<close>, \<^verbatim>\<open>_ReadILike.get\<close>, \<^verbatim>\<open>_Update.put\<close>, \<^verbatim>\<open>_UpdateAll.put\<close>
  and \<^verbatim>\<open>_Delete.delete\<close>. The path parameters are strings, the userid of the delete
  route an integer. A returned dictionary or list is the JSON body under status 200; the
  failure branches return the message dictionary with status 210.
\<close>

definition Create_post ::
  "(string \<Rightarrow> string \<Rightarrow> string \<Rightarrow> string \<Rightarrow> bool) \<Rightarrow> store \<Rightarrow>
     string \<Rightarrow> string \<Rightarrow> string \<Rightarrow> string \<Rightarrow> store \<times> response" where
  "Create_post valid s nm num tch sbj =
     (case School_create valid s (PyStr nm) (PyStr num) (PyStr tch) (PyStr sbj) of
        (s', Some person) \<Rightarrow> (s', Json (Obj (School_read person)) 200)
      | (s', None) \<Rightarrow>
          (s', Json (message (''Processed '' @ nm @ '', either a format error or '' @ num
                               @ '' is duplicate'')) 210))"

definition Read_get :: "store \<Rightarrow> response" where
  "Read_get s = Json (Arr (users_all s)) 200"

definition ReadILike_get :: "store \<Rightarrow> string \<Rightarrow> response" where
  "ReadILike_get s term = Json (Arr (users_ilike s term)) 200"

definition Update_put :: "store \<Rightarrow> string \<Rightarrow> string \<Rightarrow> store \<times> response" where
  "Update_put s num nm =
     (case user_by_number s num of
        None \<Rightarrow> (s, Json (message (num @ '' is not found'')) 210)
      | Some po \<Rightarrow>
          (case School_update s po (PyStr nm) None of
             (s', po') \<Rightarrow> (s', Json (Obj (School_read po')) 200)))"

definition UpdateAll_put ::
  "store \<Rightarrow> string \<Rightarrow> string \<Rightarrow> string \<Rightarrow> string \<Rightarrow> store \<times> response" where
  "UpdateAll_put s num nm tch sbj =
     (case user_by_number s num of
        None \<Rightarrow> (s, Json (message (num @ '' is not found'')) 210)
      | Some po \<Rightarrow>
          (case School_update s po (PyStr nm) (Some (PyStr tch, PyStr sbj)) of
             (s', po') \<Rightarrow> (s', Json (Obj (School_read po')) 200)))"

definition Delete_delete ::
  "(string \<Rightarrow> int option) \<Rightarrow> store \<Rightarrow> int \<Rightarrow> store \<times> response" where
  "Delete_delete to_id s userid =
     (case user_by_id to_id s (PyInt userid) of
        None \<Rightarrow> (s, Json (message (str_int userid @ '' is not found'')) 210)
      | Some po \<Rightarrow> (let data = School_read po in (School_delete s po, Json (Obj data) 200)))"

section \<open>The search as the spec words it, and example data\<close>

text \<open>
  The spec's wording of the search: a record is found when its name or its number
  contains the term as a substring, letter case ignored.
\<close>

definition contains_ci :: "string \<Rightarrow> string \<Rightarrow> bool" where
  "contains_ci term txt = sublist (lower term) (lower txt)"

definition search_spec :: "store \<Rightarrow> string \<Rightarrow> (string \<times> pyval) list list" where
  "search_spec s term =
     map School_read (filter (\<lambda>r. contains_ci term (name r) \<or> contains_ci term (number r)) (rows s))"

text \<open>
  The table after the two create calls of \<^verbatim>\<open>api_tester\<close>: the path segments are the
  name, the number, the teacher and the subject; the keys 4 and 5 are the ones the
  tester deletes.
\<close>

definition wilma :: school where
  "wilma = \<lparr>userID = 4, name = ''Wilma Flintstone'', number = ''wilma@bedrock.org'',
             teacher = ''123wifli'', subject = ''0001112222''\<rparr>"

definition fred :: school where
  "fred = \<lparr>userID = 5, name = ''Fred Flintstone'', number = ''fred@bedrock.org'',
            teacher = ''123wifli'', subject = ''0001112222''\<rparr>"

definition tester_store :: store where
  "tester_store = \<lparr>rows = [wilma, fred], next_id = 6\<rparr>"

text \<open>
  For the examples: a validation that accepts every text input, and a conversion of form
  text to a key that reads a non-empty run of decimal digits as the number it writes.
\<close>

definition any_input :: "string \<Rightarrow> string \<Rightarrow> string \<Rightarrow> string \<Rightarrow> bool" where
  "any_input nm num tch sbj = True"

definition digits_to_id :: "string \<Rightarrow> int option" where
  "digits_to_id t =
     (if t \<noteq> [] \<and> list_all (\<lambda>c. c \<in> set ''0123456789'') t
      then Some (foldl (\<lambda>a c. 10 * a + (int (of_char c) - 48)) 0 t) else None)"

section \<open>Facts about the pattern matcher\<close>

lemma of_char_lower_char:
  "(of_char (lower_char c) :: nat) =
     (if 65 \<le> (of_char c :: nat) \<and> (of_char c :: nat) \<le> 90 then of_char c + 32 else of_char c)"
  by (simp add: lower_char_def Let_def)

lemma lower_char_wild:
  assumes "w = CHR ''%'' \<or> w = CHR ''_''"
  shows "lower_char c = w \<longleftrightarrow> c = w"
proof
  assume "lower_char c = w"
  then have "(of_char (lower_char c) :: nat) = of_char w" by simp
  with assms have "(of_char c :: nat) = of_char w"
    by (auto simp: of_char_lower_char split: if_splits)
  then show "c = w" by simp
next
  assume "c = w"
  with assms show "lower_char c = w" by (auto simp: lower_char_def)
qed

lemma lower_wild_free:
  assumes "w = CHR ''%'' \<or> w = CHR ''_''"
  shows "w \<in> set (lower t) \<longleftrightarrow> w \<in> set t"
proof -
  have "w \<in> set (lower t) \<longleftrightarrow> (\<exists>c\<in>set t. lower_char c = w)"
    by (auto simp: lower_def)
  also have "\<dots> \<longleftrightarrow> (\<exists>c\<in>set t. c = w)"
    by (simp add: lower_char_wild [OF assms])
  finally show ?thesis by auto
qed

lemma lower_wrap: "lower (''%'' @ t @ ''%'') = CHR ''%'' # lower t @ ''%''"
  by (simp add: lower_def lower_char_def)

lemma like_percent_any: "like ''%'' x"
  by (induction x) auto

lemma like_percent: "like (CHR ''%'' # ps) x \<longleftrightarrow> (\<exists>r. suffix r x \<and> like ps r)"
proof (induction x)
  case Nil
  then show ?case by simp
next
  case (Cons c cs)
  then show ?case by (auto simp: suffix_Cons)
qed

lemma like_percent_empty: "like ps [] \<Longrightarrow> like (CHR ''%'' # ps) x"
  unfolding like_percent by (rule exI [of _ "[]"]) simp

lemma like_literal:
  "p \<noteq> CHR ''%'' \<Longrightarrow> p \<noteq> CHR ''_'' \<Longrightarrow>
   like (p # ps) x \<longleftrightarrow> (\<exists>r. x = p # r \<and> like ps r)"
  by (cases x) auto

lemma like_literals:
  "CHR ''%'' \<notin> set t \<Longrightarrow> CHR ''_'' \<notin> set t \<Longrightarrow>
   like (t @ ps) x \<longleftrightarrow> (\<exists>r. x = t @ r \<and> like ps r)"
  by (induction t arbitrary: x) (auto simp: like_literal)

lemma like_wrapped:
  assumes "CHR ''%'' \<notin> set t" "CHR ''_'' \<notin> set t"
  shows "like (CHR ''%'' # t @ ''%'') x \<longleftrightarrow> sublist t x"
proof -
  have "like (CHR ''%'' # t @ ''%'') x \<longleftrightarrow> (\<exists>r. suffix r x \<and> like (t @ ''%'') r)"
    by (rule like_percent)
  also have "\<dots> \<longleftrightarrow> (\<exists>r. suffix r x \<and> (\<exists>r'. r = t @ r'))"
    using assms by (simp add: like_literals like_percent_any)
  also have "\<dots> \<longleftrightarrow> sublist t x"
    by (auto simp: suffix_def sublist_def)
  finally show ?thesis .
qed

lemma ilike_wrapped:
  assumes "CHR ''%'' \<notin> set t" "CHR ''_'' \<notin> set t"
  shows "ilike x (''%'' @ t @ ''%'') \<longleftrightarrow> contains_ci t x"
  unfolding ilike_def contains_ci_def lower_wrap
  using assms by (intro like_wrapped) (simp_all add: lower_wild_free)

lemma ilike_percent: "ilike x ''%%%''"
  by (simp add: ilike_def lower_def lower_char_def like_percent_empty)

lemma like_underscore: "like ''_%'' r \<longleftrightarrow> r \<noteq> []"
  by (cases r) (simp_all add: like_percent_any)

lemma ilike_underscore: "ilike x ''%_%'' \<longleftrightarrow> x \<noteq> []"
proof -
  have "ilike x ''%_%'' \<longleftrightarrow> (\<exists>r. suffix r (lower x) \<and> like ''_%'' r)"
    by (simp add: ilike_def lower_def lower_char_def like_percent)
  also have "\<dots> \<longleftrightarrow> (\<exists>r. suffix r (lower x) \<and> r \<noteq> [])"
    by (simp only: like_underscore)
  also have "\<dots> \<longleftrightarrow> x \<noteq> []"
    by (auto simp: lower_def)
  finally show ?thesis .
qed

section \<open>The search\<close>

text \<open>
  C3, as amended. For every store and every term that holds neither a percent sign nor an
  underscore, \<open>users_ilike\<close> returns the representations, in storage order, of exactly
  the records whose name or number contains the term as a substring when letter case is
  ignored; for the empty term it returns every record.
\<close>

theorem users_ilike_plain_term:
  "(CHR ''%'' \<notin> set t \<and> CHR ''_'' \<notin> set t \<longrightarrow> users_ilike s t = search_spec s t)
   \<and> users_ilike s [] = users_all s"
proof -
  have plain: "users_ilike s u = search_spec s u"
    if "CHR ''%'' \<notin> set u" "CHR ''_'' \<notin> set u" for u
    using that by (simp add: users_ilike_def search_spec_def Let_def ilike_wrapped del: append.simps)
  have "search_spec s [] = users_all s"
    by (simp add: search_spec_def contains_ci_def users_all_def lower_def)
  with plain [of "[]"] plain [of t] show ?thesis by simp
qed

theorem users_ilike_plain_term_witness:
  "CHR ''%'' \<notin> set ''FLINT'' \<and> CHR ''_'' \<notin> set ''FLINT''
   \<and> users_ilike tester_store ''FLINT'' = search_spec tester_store ''FLINT''
   \<and> search_spec tester_store ''FLINT'' = [School_read wilma, School_read fred]
   \<and> users_ilike tester_store ''wilma@'' = [School_read wilma]"
proof -
  have h: "CHR ''%'' \<notin> set ''FLINT'' \<and> CHR ''_'' \<notin> set ''FLINT''" by simp
  have "users_ilike tester_store ''FLINT'' = search_spec tester_store ''FLINT''"
    using users_ilike_plain_term [of "''FLINT''" tester_store] h by blast
  moreover have "search_spec tester_store ''FLINT'' = [School_read wilma, School_read fred]"
    by code_simp
  moreover have "users_ilike tester_store ''wilma@'' = [School_read wilma]"
    by code_simp
  ultimately show ?thesis using h by blast
qed

text \<open>
  C3 as the spec states it fails: on the tester's table the term made of one percent sign
  finds both records, and neither record has a percent sign in its name or number.
\<close>

theorem users_ilike_percent_counterexample:
  "set (users_ilike tester_store ''%'') \<noteq> set (search_spec tester_store ''%'')"
  by code_simp

text \<open>
  C9. The term is put between two percent signs and matched as an SQL pattern against
  the name and the number, so a percent sign or an underscore in it is a wildcard: for
  every store, the term made of one percent sign finds every record, and the term made
  of one underscore finds every record whose name or number is not empty.
\<close>

theorem users_ilike_wildcards:
  "users_ilike s t
     = map School_read
         (filter (\<lambda>r. like (CHR ''%'' # lower t @ ''%'') (lower (name r))
                     \<or> like (CHR ''%'' # lower t @ ''%'') (lower (number r))) (rows s))
   \<and> users_ilike s ''%'' = users_all s
   \<and> users_ilike s ''_'' = map School_read (filter (\<lambda>r. name r \<noteq> [] \<or> number r \<noteq> []) (rows s))"
proof (intro conjI)
  show "users_ilike s t
     = map School_read
         (filter (\<lambda>r. like (CHR ''%'' # lower t @ ''%'') (lower (name r))
                     \<or> like (CHR ''%'' # lower t @ ''%'') (lower (number r))) (rows s))"
    unfolding users_ilike_def Let_def ilike_def lower_wrap ..
  show "users_ilike s ''%'' = users_all s"
    by (simp add: users_ilike_def users_all_def ilike_percent)
  show "users_ilike s ''_'' = map School_read (filter (\<lambda>r. name r \<noteq> [] \<or> number r \<noteq> []) (rows s))"
    by (simp add: users_ilike_def ilike_underscore)
qed

theorem users_ilike_wildcards_witness:
  "users_ilike tester_store ''%'' = [School_read wilma, School_read fred]
   \<and> search_spec tester_store ''%'' = []
   \<and> users_ilike tester_store ''_'' = [School_read wilma, School_read fred]"
proof -
  have "users_all tester_store = [School_read wilma, School_read fred]"
    by (simp add: users_all_def tester_store_def)
  moreover have "search_spec tester_store ''%'' = []"
    by code_simp
  moreover have "map School_read (filter (\<lambda>r. name r \<noteq> [] \<or> number r \<noteq> []) (rows tester_store))
      = [School_read wilma, School_read fred]"
    by (simp add: tester_store_def wilma_def fred_def)
  ultimately show ?thesis
    using users_ilike_wildcards [of tester_store "[]", THEN conjunct2] by simp
qed

section \<open>Facts about the store\<close>

lemma wf_store_empty: "wf_store \<lparr>rows = [], next_id = 1\<rparr>"
  by (simp add: wf_store_def)

lemma wf_same_key:
  assumes "wf_store s" "r \<in> set (rows s)" "po \<in> set (rows s)" "userID r = userID po"
  shows "r = po"
proof -
  from assms(1) have "inj_on userID (set (rows s))"
    by (simp add: wf_store_def distinct_map)
  then show ?thesis using assms(4,2,3) by (rule inj_onD)
qed

lemma wf_same_number:
  assumes "wf_store s" "r \<in> set (rows s)" "po \<in> set (rows s)" "number r = number po"
  shows "r = po"
proof -
  from assms(1) have "inj_on number (set (rows s))"
    by (simp add: wf_store_def distinct_map)
  then show ?thesis using assms(4,2,3) by (rule inj_onD)
qed

lemma find_the_one:
  assumes "po \<in> set rs" "P po" "\<And>r. r \<in> set rs \<Longrightarrow> P r \<Longrightarrow> r = po"
  shows "find P rs = Some po"
  using assms
proof (induction rs)
  case Nil
  then show ?case by simp
next
  case (Cons x xs)
  show ?case
  proof (cases "P x")
    case True
    have "x = po" by (rule Cons.prems(3)) (simp_all add: True)
    with True show ?thesis by simp
  next
    case False
    with Cons.prems(1,2) have in_xs: "po \<in> set xs" by auto
    have "find P xs = Some po"
    proof (rule Cons.IH [OF in_xs Cons.prems(2)])
      fix r assume "r \<in> set xs" "P r"
      then show "r = po" by (intro Cons.prems(3)) simp_all
    qed
    with False show ?thesis by simp
  qed
qed

lemma find_in_set: "find P rs = Some po \<Longrightarrow> po \<in> set rs \<and> P po"
  by (induction rs) (auto split: if_splits)

lemma key_matches_one: "key_matches to_id k v \<Longrightarrow> key_matches to_id k' v \<Longrightarrow> k = k'"
  by (cases v) (auto simp: key_matches_def)

lemma user_by_id_found:
  assumes "wf_store s" "po \<in> set (rows s)" "key_matches to_id (userID po) v"
  shows "user_by_id to_id s v = Some po"
  unfolding user_by_id_def
proof (rule find_the_one)
  show "po \<in> set (rows s)" by (rule assms(2))
  show "key_matches to_id (userID po) v" by (rule assms(3))
  fix r assume r: "r \<in> set (rows s)" "key_matches to_id (userID r) v"
  from r(2) assms(3) have "userID r = userID po" by (rule key_matches_one)
  with assms(1) r(1) assms(2) show "r = po" by (rule wf_same_key)
qed

lemma user_by_id_absent:
  assumes "\<And>r. r \<in> set (rows s) \<Longrightarrow> \<not> key_matches to_id (userID r) v"
  shows "user_by_id to_id s v = None"
  unfolding user_by_id_def find_None_iff using assms by blast

lemma user_by_number_found:
  assumes "wf_store s" "po \<in> set (rows s)"
  shows "user_by_number s (number po) = Some po"
  unfolding user_by_number_def
proof (rule find_the_one)
  show "po \<in> set (rows s)" by (rule assms(2))
  show "number po = number po" by (rule refl)
  fix r assume "r \<in> set (rows s)" "number r = number po"
  with assms show "r = po" by (blast intro: wf_same_number)
qed

lemma user_by_number_absent:
  assumes "num \<notin> set (map number (rows s))"
  shows "user_by_number s num = None"
  unfolding user_by_number_def find_None_iff using assms by auto

lemma update_rows:
  assumes "wf_store s" "po \<in> set (rows s)"
  shows "map (\<lambda>r. if userID r = userID po then po' else r) (rows s)
       = map (\<lambda>r. if r = po then po' else r) (rows s)"
proof (rule map_cong [OF refl])
  fix r assume "r \<in> set (rows s)"
  then have "userID r = userID po \<longleftrightarrow> r = po"
    using wf_same_key [OF assms(1) _ assms(2), of r] by blast
  then show "(if userID r = userID po then po' else r) = (if r = po then po' else r)"
    by simp
qed

lemma delete_rows:
  assumes "wf_store s" "po \<in> set (rows s)"
  shows "filter (\<lambda>r. userID r \<noteq> userID po) (rows s) = remove1 po (rows s)"
proof -
  from assms(1) have d: "distinct (rows s)"
    by (simp add: wf_store_def distinct_map)
  have "filter (\<lambda>r. userID r \<noteq> userID po) (rows s) = filter (\<lambda>r. po \<noteq> r) (rows s)"
  proof (rule filter_cong [OF refl])
    fix r assume "r \<in> set (rows s)"
    then show "(userID r \<noteq> userID po) = (po \<noteq> r)"
      using wf_same_key [OF assms(1) _ assms(2), of r] by blast
  qed
  with d show ?thesis
    by (simp add: distinct_remove1_removeAll removeAll_filter_not_eq)
qed

lemma wf_School_create: "wf_store s \<Longrightarrow> wf_store (fst (School_create valid s a b c d))"
  by (cases a; cases b; cases c; cases d)
     (auto simp: School_create_def wf_store_def Let_def list_all_iff)

lemma wf_store_keys:
  "wf_store s \<longleftrightarrow>
     distinct (map userID (rows s)) \<and> distinct (map number (rows s))
     \<and> (\<forall>k\<in>set (map userID (rows s)). k < next_id s)"
  by (auto simp: wf_store_def list_all_iff)

lemma map_replace_same:
  assumes "g po' = g po"
  shows "map g (map (\<lambda>r. if r = po then po' else r) rs) = map g rs"
  using assms by (induction rs) auto

lemma wf_School_update:
  assumes "wf_store s" "po \<in> set (rows s)"
  shows "wf_store (fst (School_update s po a rest))"
proof -
  obtain po' where s': "fst (School_update s po a rest)
        = s\<lparr>rows := map (\<lambda>r. if r = po then po' else r) (rows s)\<rparr>"
    and same: "userID po' = userID po" "number po' = number po"
    by (cases rest) (auto simp: School_update_def Let_def update_rows [OF assms])
  have "map userID (rows (fst (School_update s po a rest))) = map userID (rows s)"
    unfolding s' using map_replace_same [of userID, OF same(1)] by (simp del: map_map)
  moreover have "map number (rows (fst (School_update s po a rest))) = map number (rows s)"
    unfolding s' using map_replace_same [of number, OF same(2)] by (simp del: map_map)
  moreover have "next_id (fst (School_update s po a rest)) = next_id s"
    by (simp add: s')
  ultimately show ?thesis
    using assms(1) by (simp only: wf_store_keys) blast
qed

lemma wf_School_delete: "wf_store s \<Longrightarrow> wf_store (School_delete s po)"
  by (auto simp: School_delete_def wf_store_def list_all_iff distinct_map_filter)

text \<open>Every handler keeps the invariant of the store.\<close>

lemma user_by_id_in_rows: "user_by_id to_id s v = Some po \<Longrightarrow> po \<in> set (rows s)"
  by (simp add: user_by_id_def find_in_set)

lemma user_by_number_in_rows: "user_by_number s num = Some po \<Longrightarrow> po \<in> set (rows s)"
  by (simp add: user_by_number_def find_in_set)

lemma wf_store_handlers:
  assumes "wf_store s"
  shows "wf_store (fst (create valid s f))"
    and "wf_store (fst (update to_id s f))"
    and "wf_store (fst (delete to_id s f))"
    and "wf_store (fst (Create_post valid s nm num tch sbj))"
    and "wf_store (fst (Update_put s num nm))"
    and "wf_store (fst (UpdateAll_put s num nm tch sbj))"
    and "wf_store (fst (Delete_delete to_id s k))"
proof -
  show "wf_store (fst (create valid s f))"
    using assms by (simp add: create_def wf_School_create)
  show "wf_store (fst (update to_id s f))"
    using assms
    by (auto simp: update_def wf_School_update user_by_id_in_rows split: option.splits)
  show "wf_store (fst (delete to_id s f))"
    using assms by (auto simp: delete_def wf_School_delete split: option.splits)
  have "fst (Create_post valid s nm num tch sbj)
      = fst (School_create valid s (PyStr nm) (PyStr num) (PyStr tch) (PyStr sbj))"
    by (auto simp: Create_post_def split: prod.splits option.splits)
  with assms show "wf_store (fst (Create_post valid s nm num tch sbj))"
    by (simp add: wf_School_create)
  have "fst (Update_put s num nm)
      = (case user_by_number s num of None \<Rightarrow> s
         | Some po \<Rightarrow> fst (School_update s po (PyStr nm) None))"
    by (auto simp: Update_put_def split: prod.splits option.splits)
  with assms show "wf_store (fst (Update_put s num nm))"
    by (auto simp: wf_School_update user_by_number_in_rows split: option.splits)
  have "fst (UpdateAll_put s num nm tch sbj)
      = (case user_by_number s num of None \<Rightarrow> s
         | Some po \<Rightarrow> fst (School_update s po (PyStr nm) (Some (PyStr tch, PyStr sbj))))"
    by (auto simp: UpdateAll_put_def split: prod.splits option.splits)
  with assms show "wf_store (fst (UpdateAll_put s num nm tch sbj))"
    by (auto simp: wf_School_update user_by_number_in_rows split: option.splits)
  show "wf_store (fst (Delete_delete to_id s k))"
    using assms by (auto simp: Delete_delete_def wf_School_delete split: option.splits)
qed

section \<open>Create\<close>

lemma School_create_accepts:
  assumes "valid nm num tch sbj" "num \<notin> set (map number (rows s))"
  shows "School_create valid s (PyStr nm) (PyStr num) (PyStr tch) (PyStr sbj)
       = (s\<lparr>rows := rows s @ [\<lparr>userID = next_id s, name = nm, number = num,
                                  teacher = tch, subject = sbj\<rparr>],
            next_id := next_id s + 1\<rparr>,
          Some \<lparr>userID = next_id s, name = nm, number = num, teacher = tch, subject = sbj\<rparr>)"
  using assms by (simp add: School_create_def Let_def)

lemma School_create_rejects:
  assumes "\<not> valid nm num tch sbj \<or> num \<in> set (map number (rows s))"
  shows "School_create valid s (PyStr nm) (PyStr num) (PyStr tch) (PyStr sbj) = (s, None)"
  using assms by (auto simp: School_create_def)

lemma School_create_not_text:
  assumes "a = PyNone \<or> b = PyNone \<or> c = PyNone \<or> d = PyNone"
  shows "School_create valid s a b c d = (s, None)"
  using assms by (cases a; cases b; cases c; cases d) (simp_all add: School_create_def)

text \<open>
  C1. A REST create whose input is valid and whose number is not in the store answers
  with the new record, makes the table one row longer, and the new record is then what
  the lookup by its assigned key and the lookup by its number return.
\<close>

theorem Create_post_new_number:
  assumes "wf_store s" and "valid nm num tch sbj" and "num \<notin> set (map number (rows s))"
    and "po = \<lparr>userID = next_id s, name = nm, number = num, teacher = tch, subject = sbj\<rparr>"
    and "s' = fst (Create_post valid s nm num tch sbj)"
  shows "snd (Create_post valid s nm num tch sbj) = Json (Obj (School_read po)) 200
     \<and> length (rows s') = length (rows s) + 1
     \<and> rows s' = rows s @ [po]
     \<and> user_by_id to_id s' (PyInt (userID po)) = Some po
     \<and> user_by_number s' num = Some po"
proof -
  have run: "Create_post valid s nm num tch sbj
      = (s\<lparr>rows := rows s @ [po], next_id := next_id s + 1\<rparr>, Json (Obj (School_read po)) 200)"
    using assms(2,3) by (simp add: Create_post_def School_create_accepts assms(4))
  then have s': "s' = s\<lparr>rows := rows s @ [po], next_id := next_id s + 1\<rparr>"
    by (simp add: assms(5))
  have "s' = fst (School_create valid s (PyStr nm) (PyStr num) (PyStr tch) (PyStr sbj))"
    using assms(2,3) by (simp add: s' School_create_accepts assms(4))
  with assms(1) have wf': "wf_store s'" by (simp add: wf_School_create)
  have mem: "po \<in> set (rows s')" by (simp add: s')
  have "user_by_id to_id s' (PyInt (userID po)) = Some po"
    using wf' mem by (rule user_by_id_found) (simp add: key_matches_def)
  moreover have "user_by_number s' (number po) = Some po"
    using wf' mem by (rule user_by_number_found)
  moreover have "number po = num" by (simp add: assms(4))
  ultimately show ?thesis by (simp add: run s')
qed

theorem Create_post_new_number_witness:
  "wf_store tester_store
   \<and> any_input ''Barney Rubble'' ''barney@bedrock.org'' ''123wifli'' ''0001112222''
   \<and> ''barney@bedrock.org'' \<notin> set (map number (rows tester_store))
   \<and> length (rows (fst (Create_post any_input tester_store
          ''Barney Rubble'' ''barney@bedrock.org'' ''123wifli'' ''0001112222''))) = 3
   \<and> user_by_id digits_to_id (fst (Create_post any_input tester_store
          ''Barney Rubble'' ''barney@bedrock.org'' ''123wifli'' ''0001112222'')) (PyInt 6)
      = Some \<lparr>userID = 6, name = ''Barney Rubble'', number = ''barney@bedrock.org'',
               teacher = ''123wifli'', subject = ''0001112222''\<rparr>
   \<and> user_by_number (fst (Create_post any_input tester_store
          ''Barney Rubble'' ''barney@bedrock.org'' ''123wifli'' ''0001112222''))
        ''barney@bedrock.org''
      = Some \<lparr>userID = 6, name = ''Barney Rubble'', number = ''barney@bedrock.org'',
               teacher = ''123wifli'', subject = ''0001112222''\<rparr>"
proof -
  have a: "wf_store tester_store" by code_simp
  have b: "any_input ''Barney Rubble'' ''barney@bedrock.org'' ''123wifli'' ''0001112222''"
    by (simp add: any_input_def)
  have c: "''barney@bedrock.org'' \<notin> set (map number (rows tester_store))" by code_simp
  have n: "next_id tester_store = 6" "length (rows tester_store) = 2"
    by (simp_all add: tester_store_def)
  show ?thesis
    using a b c
      Create_post_new_number [where s = tester_store and valid = any_input
        and nm = "''Barney Rubble''" and num = "''barney@bedrock.org''"
        and tch = "''123wifli''" and sbj = "''0001112222''" and to_id = digits_to_id,
        OF a b c refl refl]
    by (simp add: n)
qed

text \<open>
  C2. A REST create whose number is already in the store leaves the store as it was and
  answers with the message object under status 210.
\<close>

theorem Create_post_duplicate_number:
  assumes "num \<in> set (map number (rows s))"
  shows "Create_post valid s nm num tch sbj
       = (s, Json (message (''Processed '' @ nm @ '', either a format error or '' @ num
                              @ '' is duplicate'')) 210)"
  using assms by (simp add: Create_post_def School_create_rejects)

theorem Create_post_duplicate_number_witness:
  "''wilma@bedrock.org'' \<in> set (map number (rows tester_store))
   \<and> Create_post any_input tester_store
        ''Fred Flintstone'' ''wilma@bedrock.org'' ''123wifli'' ''0001112222''
      = (tester_store,
         Json (Obj [(''message'', PyStr
           ''Processed Fred Flintstone, either a format error or wilma@bedrock.org is duplicate'')])
           210)"
proof -
  have a: "''wilma@bedrock.org'' \<in> set (map number (rows tester_store))" by code_simp
  show ?thesis
    using a Create_post_duplicate_number [OF a, of any_input "''Fred Flintstone''"
        "''123wifli''" "''0001112222''"]
    by (simp add: message_def)
qed

text \<open>
  C6. The page controller's create answers every request with the redirect to the
  listing. The store it leaves is the one the entity's create leaves for the four form
  fields: when all four are in the form, the new row is appended if the input is valid and
  the number is new, and the store is unchanged otherwise, with the same redirect.
\<close>

theorem create_always_redirects:
  "create valid s f
     = (fst (School_create valid s (form_get f ''name'') (form_get f ''number'')
               (form_get f ''teacher'') (form_get f ''subject'')),
        Redirect ''attendance'')
   \<and> (\<forall>nm num tch sbj.
        map_of f ''name'' = Some nm \<and> map_of f ''number'' = Some num
        \<and> map_of f ''teacher'' = Some tch \<and> map_of f ''subject'' = Some sbj \<longrightarrow>
        create valid s f
          = (if valid nm num tch sbj \<and> num \<notin> set (map number (rows s))
             then s\<lparr>rows := rows s @ [\<lparr>userID = next_id s, name = nm, number = num,
                                         teacher = tch, subject = sbj\<rparr>],
                    next_id := next_id s + 1\<rparr>
             else s,
             Redirect ''attendance''))"
proof -
  have empty: "fst (School_create valid s (form_get [] ''name'') (form_get [] ''number'')
                   (form_get [] ''teacher'') (form_get [] ''subject'')) = s"
    by (simp add: School_create_not_text form_get_def)
  have general: "create valid s f
     = (fst (School_create valid s (form_get f ''name'') (form_get f ''number'')
               (form_get f ''teacher'') (form_get f ''subject'')),
        Redirect ''attendance'')"
    using empty by (cases "f = []") (simp_all add: create_def)
  have "create valid s f
          = (if valid nm num tch sbj \<and> num \<notin> set (map number (rows s))
             then s\<lparr>rows := rows s @ [\<lparr>userID = next_id s, name = nm, number = num,
                                         teacher = tch, subject = sbj\<rparr>],
                    next_id := next_id s + 1\<rparr>
             else s,
             Redirect ''attendance'')"
    if "map_of f ''name'' = Some nm" "map_of f ''number'' = Some num"
       "map_of f ''teacher'' = Some tch" "map_of f ''subject'' = Some sbj"
    for nm num tch sbj
    unfolding general using that
    by (simp add: form_get_def School_create_accepts School_create_rejects)
  with general show ?thesis by blast
qed

theorem create_always_redirects_witness:
  "map_of [(''name'', ''Fred Flintstone''), (''number'', ''wilma@bedrock.org''),
           (''teacher'', ''123wifli''), (''subject'', ''0001112222'')] ''number''
     = Some ''wilma@bedrock.org''
   \<and> create any_input tester_store
        [(''name'', ''Fred Flintstone''), (''number'', ''wilma@bedrock.org''),
         (''teacher'', ''123wifli''), (''subject'', ''0001112222'')]
      = (tester_store, Redirect ''attendance'')
   \<and> create any_input tester_store
        [(''name'', ''Fred Flintstone''), (''number'', ''wilma@bedrock.org''),
         (''teacher'', ''123wifli''), (''subject'', ''0001112222'')]
      = (fst (School_create any_input tester_store (PyStr ''Fred Flintstone'')
               (PyStr ''wilma@bedrock.org'') (PyStr ''123wifli'') (PyStr ''0001112222'')),
         Redirect ''attendance'')"
proof -
  let ?f = "[(''name'', ''Fred Flintstone''), (''number'', ''wilma@bedrock.org''),
             (''teacher'', ''123wifli''), (''subject'', ''0001112222'')]"
  have keys: "map_of ?f ''name'' = Some ''Fred Flintstone''
      \<and> map_of ?f ''number'' = Some ''wilma@bedrock.org''
      \<and> map_of ?f ''teacher'' = Some ''123wifli''
      \<and> map_of ?f ''subject'' = Some ''0001112222''"
    by simp
  have dup: "''wilma@bedrock.org'' \<in> set (map number (rows tester_store))"
    by code_simp
  note inst = create_always_redirects [of any_input tester_store ?f]
  from inst have "create any_input tester_store ?f
      = (if any_input ''Fred Flintstone'' ''wilma@bedrock.org'' ''123wifli'' ''0001112222''
            \<and> ''wilma@bedrock.org'' \<notin> set (map number (rows tester_store))
         then tester_store\<lparr>rows := rows tester_store @ [\<lparr>userID = next_id tester_store,
                 name = ''Fred Flintstone'', number = ''wilma@bedrock.org'',
                 teacher = ''123wifli'', subject = ''0001112222''\<rparr>],
               next_id := next_id tester_store + 1\<rparr>
         else tester_store,
         Redirect ''attendance'')"
    using keys by blast
  with dup have "create any_input tester_store ?f = (tester_store, Redirect ''attendance'')"
    by simp
  moreover from inst have "create any_input tester_store ?f
      = (fst (School_create any_input tester_store (form_get ?f ''name'')
               (form_get ?f ''number'') (form_get ?f ''teacher'') (form_get ?f ''subject'')),
         Redirect ''attendance'')"
    by blast
  ultimately show ?thesis by (simp add: form_get_def)
qed

section \<open>Update\<close>

lemma School_update_rows:
  assumes "wf_store s" "po \<in> set (rows s)"
  shows "School_update s po a None
       = (s\<lparr>rows := map (\<lambda>r. if r = po then po\<lparr>name := assign a (name po)\<rparr> else r) (rows s)\<rparr>,
          po\<lparr>name := assign a (name po)\<rparr>)"
    and "School_update s po a (Some (c, d))
       = (s\<lparr>rows := map (\<lambda>r. if r = po
                                then po\<lparr>name := assign a (name po),
                                        teacher := assign c (teacher po),
                                        subject := assign d (subject po)\<rparr>
                                else r) (rows s)\<rparr>,
          po\<lparr>name := assign a (name po), teacher := assign c (teacher po),
             subject := assign d (subject po)\<rparr>)"
  by (simp_all add: School_update_def Let_def update_rows [OF assms])

text \<open>
  C4. For the page controller's update by key and the two REST updates by number: when
  the key or number matches no record, the store is as it was and the answer is the
  redirect (page controller) or the message object under status 210 (REST); when it
  matches the record \<open>po\<close>, the new table is the old one with \<open>po\<close> replaced by \<open>po\<close>
  with the new name (and, for the second REST update, the new teacher and subject), every
  other row and the next key as they were.
\<close>

theorem update_changes_only_target:
  assumes "wf_store s"
  shows
    "(f = [] \<or> (\<forall>r\<in>set (rows s). \<not> key_matches to_id (userID r) (form_get f ''userid''))
        \<longrightarrow> update to_id s f = (s, Redirect ''attendance''))
   \<and> (\<forall>po\<in>set (rows s). f \<noteq> [] \<and> key_matches to_id (userID po) (form_get f ''userid'') \<longrightarrow>
        update to_id s f
          = (s\<lparr>rows := map (\<lambda>r. if r = po
                                   then po\<lparr>name := assign (form_get f ''name'') (name po)\<rparr>
                                   else r) (rows s)\<rparr>,
             Redirect ''attendance''))
   \<and> (num \<notin> set (map number (rows s)) \<longrightarrow>
        Update_put s num nm = (s, Json (message (num @ '' is not found'')) 210)
        \<and> UpdateAll_put s num nm tch sbj = (s, Json (message (num @ '' is not found'')) 210))
   \<and> (\<forall>po\<in>set (rows s). number po = num \<longrightarrow>
        Update_put s num nm
          = (s\<lparr>rows := map (\<lambda>r. if r = po then po\<lparr>name := nm\<rparr> else r) (rows s)\<rparr>,
             Json (Obj (School_read (po\<lparr>name := nm\<rparr>))) 200)
        \<and> UpdateAll_put s num nm tch sbj
          = (s\<lparr>rows := map (\<lambda>r. if r = po
                                   then po\<lparr>name := nm, teacher := tch, subject := sbj\<rparr>
                                   else r) (rows s)\<rparr>,
             Json (Obj (School_read (po\<lparr>name := nm, teacher := tch, subject := sbj\<rparr>))) 200))"
proof (intro conjI ballI impI)
  assume "f = [] \<or> (\<forall>r\<in>set (rows s). \<not> key_matches to_id (userID r) (form_get f ''userid''))"
  then show "update to_id s f = (s, Redirect ''attendance'')"
    by (auto simp: update_def user_by_id_absent)
next
  fix po assume "po \<in> set (rows s)"
    and "f \<noteq> [] \<and> key_matches to_id (userID po) (form_get f ''userid'')"
  then show "update to_id s f
          = (s\<lparr>rows := map (\<lambda>r. if r = po
                                   then po\<lparr>name := assign (form_get f ''name'') (name po)\<rparr>
                                   else r) (rows s)\<rparr>,
             Redirect ''attendance'')"
    using assms by (simp add: update_def user_by_id_found School_update_rows)
next
  assume "num \<notin> set (map number (rows s))"
  then show "Update_put s num nm = (s, Json (message (num @ '' is not found'')) 210)"
    by (simp add: Update_put_def user_by_number_absent)
next
  assume "num \<notin> set (map number (rows s))"
  then show "UpdateAll_put s num nm tch sbj = (s, Json (message (num @ '' is not found'')) 210)"
    by (simp add: UpdateAll_put_def user_by_number_absent)
next
  fix po assume po: "po \<in> set (rows s)" "number po = num"
  with assms have "user_by_number s num = Some po"
    using user_by_number_found [of s po] by simp
  with assms po(1) show "Update_put s num nm
          = (s\<lparr>rows := map (\<lambda>r. if r = po then po\<lparr>name := nm\<rparr> else r) (rows s)\<rparr>,
             Json (Obj (School_read (po\<lparr>name := nm\<rparr>))) 200)"
    by (simp add: Update_put_def School_update_rows assign_def)
next
  fix po assume po: "po \<in> set (rows s)" "number po = num"
  with assms have "user_by_number s num = Some po"
    using user_by_number_found [of s po] by simp
  with assms po(1) show "UpdateAll_put s num nm tch sbj
          = (s\<lparr>rows := map (\<lambda>r. if r = po
                                   then po\<lparr>name := nm, teacher := tch, subject := sbj\<rparr>
                                   else r) (rows s)\<rparr>,
             Json (Obj (School_read (po\<lparr>name := nm, teacher := tch, subject := sbj\<rparr>))) 200)"
    by (simp add: UpdateAll_put_def School_update_rows assign_def)
qed

theorem update_changes_only_target_witness:
  "wf_store tester_store
   \<and> update digits_to_id tester_store [(''userid'', ''4''), (''name'', ''Wilma S Flintstone'')]
      = (\<lparr>rows = [wilma\<lparr>name := ''Wilma S Flintstone''\<rparr>, fred], next_id = 6\<rparr>,
         Redirect ''attendance'')
   \<and> update digits_to_id tester_store [(''userid'', ''7''), (''name'', ''Nobody'')]
      = (tester_store, Redirect ''attendance'')
   \<and> Update_put tester_store ''wilma@bedrock.org'' ''Wilma Slaghoople Flintstone''
      = (\<lparr>rows = [wilma\<lparr>name := ''Wilma Slaghoople Flintstone''\<rparr>, fred], next_id = 6\<rparr>,
         Json (Obj (School_read (wilma\<lparr>name := ''Wilma Slaghoople Flintstone''\<rparr>))) 200)
   \<and> UpdateAll_put tester_store ''wilma@bedrock.org'' ''Wilma S Flintstone'' ''123wsfli''
        ''0001112229''
      = (\<lparr>rows = [wilma\<lparr>name := ''Wilma S Flintstone'', teacher := ''123wsfli'',
                          subject := ''0001112229''\<rparr>, fred], next_id = 6\<rparr>,
         Json (Obj (School_read (wilma\<lparr>name := ''Wilma S Flintstone'', teacher := ''123wsfli'',
                                        subject := ''0001112229''\<rparr>))) 200)
   \<and> Update_put tester_store ''barney@bedrock.org'' ''Barney''
      = (tester_store, Json (Obj [(''message'', PyStr ''barney@bedrock.org is not found'')]) 210)"
proof -
  let ?f = "[(''userid'', ''4''), (''name'', ''Wilma S Flintstone'')]"
  let ?g = "[(''userid'', ''7''), (''name'', ''Nobody'')]"
  have a: "wf_store tester_store" by code_simp
  have m: "wilma \<in> set (rows tester_store)" by (simp add: tester_store_def)
  have k: "?f \<noteq> [] \<and> key_matches digits_to_id (userID wilma) (form_get ?f ''userid'')"
    by code_simp
  have n: "number wilma = ''wilma@bedrock.org''" by (simp add: wilma_def)
  have g: "\<forall>r\<in>set (rows tester_store).
             \<not> key_matches digits_to_id (userID r) (form_get ?g ''userid'')"
    by code_simp
  have b: "''barney@bedrock.org'' \<notin> set (map number (rows tester_store))" by code_simp
  have differ: "fred \<noteq> wilma" by (simp add: fred_def wilma_def)
  note found = update_changes_only_target [OF a, where f = ?f and to_id = digits_to_id
      and num = "''wilma@bedrock.org''" and nm = "''Wilma Slaghoople Flintstone''"]
  note found_all = update_changes_only_target [OF a, where f = ?f and to_id = digits_to_id
      and num = "''wilma@bedrock.org''" and nm = "''Wilma S Flintstone''"
      and tch = "''123wsfli''" and sbj = "''0001112229''"]
  note absent = update_changes_only_target [OF a, where f = ?g and to_id = digits_to_id
      and num = "''barney@bedrock.org''" and nm = "''Barney''"]
  from found m k have "update digits_to_id tester_store ?f
      = (tester_store\<lparr>rows := map (\<lambda>r. if r = wilma
            then wilma\<lparr>name := assign (form_get ?f ''name'') (name wilma)\<rparr> else r)
            (rows tester_store)\<rparr>, Redirect ''attendance'')"
    by blast
  then have u1: "update digits_to_id tester_store ?f
      = (\<lparr>rows = [wilma\<lparr>name := ''Wilma S Flintstone''\<rparr>, fred], next_id = 6\<rparr>,
         Redirect ''attendance'')"
    using differ by (simp add: tester_store_def form_get_def assign_def)
  from absent g have u2: "update digits_to_id tester_store ?g
      = (tester_store, Redirect ''attendance'')"
    by blast
  from found m n have "Update_put tester_store ''wilma@bedrock.org'' ''Wilma Slaghoople Flintstone''
      = (tester_store\<lparr>rows := map (\<lambda>r. if r = wilma
            then wilma\<lparr>name := ''Wilma Slaghoople Flintstone''\<rparr> else r) (rows tester_store)\<rparr>,
         Json (Obj (School_read (wilma\<lparr>name := ''Wilma Slaghoople Flintstone''\<rparr>))) 200)"
    by blast
  then have u3: "Update_put tester_store ''wilma@bedrock.org'' ''Wilma Slaghoople Flintstone''
      = (\<lparr>rows = [wilma\<lparr>name := ''Wilma Slaghoople Flintstone''\<rparr>, fred], next_id = 6\<rparr>,
         Json (Obj (School_read (wilma\<lparr>name := ''Wilma Slaghoople Flintstone''\<rparr>))) 200)"
    using differ by (simp add: tester_store_def)
  from found_all m n have "UpdateAll_put tester_store ''wilma@bedrock.org''
        ''Wilma S Flintstone'' ''123wsfli'' ''0001112229''
      = (tester_store\<lparr>rows := map (\<lambda>r. if r = wilma
            then wilma\<lparr>name := ''Wilma S Flintstone'', teacher := ''123wsfli'',
                       subject := ''0001112229''\<rparr> else r) (rows tester_store)\<rparr>,
         Json (Obj (School_read (wilma\<lparr>name := ''Wilma S Flintstone'', teacher := ''123wsfli'',
                                        subject := ''0001112229''\<rparr>))) 200)"
    by blast
  then have u4: "UpdateAll_put tester_store ''wilma@bedrock.org''
        ''Wilma S Flintstone'' ''123wsfli'' ''0001112229''
      = (\<lparr>rows = [wilma\<lparr>name := ''Wilma S Flintstone'', teacher := ''123wsfli'',
                          subject := ''0001112229''\<rparr>, fred], next_id = 6\<rparr>,
         Json (Obj (School_read (wilma\<lparr>name := ''Wilma S Flintstone'', teacher := ''123wsfli'',
                                        subject := ''0001112229''\<rparr>))) 200)"
    using differ by (simp add: tester_store_def)
  from absent b have "Update_put tester_store ''barney@bedrock.org'' ''Barney''
      = (tester_store, Json (message (''barney@bedrock.org'' @ '' is not found'')) 210)"
    by blast
  then have u5: "Update_put tester_store ''barney@bedrock.org'' ''Barney''
      = (tester_store, Json (Obj [(''message'', PyStr ''barney@bedrock.org is not found'')]) 210)"
    by (simp add: message_def)
  from a u1 u2 u3 u4 u5 show ?thesis by (intro conjI)
qed

section \<open>Delete\<close>

text \<open>
  C5. The REST delete of the key of a record \<open>po\<close> of the store removes that one row, the
  other rows staying as and where they were, and answers with the representation of
  \<open>po\<close> read before the removal; the delete of a key that no record has leaves the store
  as it was and answers with the message object under status 210.
\<close>

theorem Delete_delete_one_row:
  assumes "wf_store s"
  shows
    "(\<forall>po\<in>set (rows s). userID po = k \<longrightarrow>
        Delete_delete to_id s k
          = (s\<lparr>rows := remove1 po (rows s)\<rparr>, Json (Obj (School_read po)) 200)
        \<and> po \<notin> set (remove1 po (rows s))
        \<and> length (remove1 po (rows s)) + 1 = length (rows s))
   \<and> ((\<forall>r\<in>set (rows s). userID r \<noteq> k) \<longrightarrow>
        Delete_delete to_id s k = (s, Json (message (str_int k @ '' is not found'')) 210))"
proof (intro conjI ballI impI)
  fix po assume po: "po \<in> set (rows s)" "userID po = k"
  then have "key_matches to_id (userID po) (PyInt k)" by (simp add: key_matches_def)
  with assms po(1) have "user_by_id to_id s (PyInt k) = Some po" by (rule user_by_id_found)
  then show "Delete_delete to_id s k
          = (s\<lparr>rows := remove1 po (rows s)\<rparr>, Json (Obj (School_read po)) 200)"
    by (simp add: Delete_delete_def School_delete_def delete_rows [OF assms po(1)])
  from assms have "distinct (rows s)" by (simp add: wf_store_def distinct_map)
  then show "po \<notin> set (remove1 po (rows s))" by simp
  from po(1) show "length (remove1 po (rows s)) + 1 = length (rows s)"
    using length_pos_if_in_set [OF po(1)] by (simp add: length_remove1)
next
  assume "\<forall>r\<in>set (rows s). userID r \<noteq> k"
  then have "user_by_id to_id s (PyInt k) = None"
    by (intro user_by_id_absent) (simp add: key_matches_def)
  then show "Delete_delete to_id s k = (s, Json (message (str_int k @ '' is not found'')) 210)"
    by (simp add: Delete_delete_def)
qed

theorem Delete_delete_one_row_witness:
  "wf_store tester_store
   \<and> Delete_delete digits_to_id tester_store 4
      = (\<lparr>rows = [fred], next_id = 6\<rparr>, Json (Obj (School_read wilma)) 200)
   \<and> Delete_delete digits_to_id tester_store 7
      = (tester_store, Json (Obj [(''message'', PyStr ''7 is not found'')]) 210)"
proof -
  have a: "wf_store tester_store" by code_simp
  have m: "wilma \<in> set (rows tester_store)" "userID wilma = 4"
    by (simp_all add: tester_store_def wilma_def)
  have g: "\<forall>r\<in>set (rows tester_store). userID r \<noteq> 7" by code_simp
  have seven: "str_int 7 = ''7''" by code_simp
  from Delete_delete_one_row [OF a, of 4 digits_to_id] m
  have "Delete_delete digits_to_id tester_store 4
      = (tester_store\<lparr>rows := remove1 wilma (rows tester_store)\<rparr>,
         Json (Obj (School_read wilma)) 200)"
    by blast
  then have d1: "Delete_delete digits_to_id tester_store 4
      = (\<lparr>rows = [fred], next_id = 6\<rparr>, Json (Obj (School_read wilma)) 200)"
    by (simp add: tester_store_def)
  from Delete_delete_one_row [OF a, of 7 digits_to_id] g
  have "Delete_delete digits_to_id tester_store 7
      = (tester_store, Json (message (str_int 7 @ '' is not found'')) 210)"
    by blast
  then have d2: "Delete_delete digits_to_id tester_store 7
      = (tester_store, Json (Obj [(''message'', PyStr ''7 is not found'')]) 210)"
    by (simp add: seven message_def)
  from a d1 d2 show ?thesis by (intro conjI)
qed

section \<open>Read\<close>

text \<open>
  C8. For a form that carries a userid field: when a record of the store has the key the
  field stands for, the page controller's read renders the table of that one record;
  when no record has it, the table is empty.
\<close>

theorem read_one_row_or_none:
  assumes "wf_store s" and "map_of f ''userid'' = Some t"
  shows
    "(\<forall>po\<in>set (rows s). to_id t = Some (userID po) \<longrightarrow>
        read to_id s f = Render ''attendance.html'' [School_read po])
   \<and> ((\<forall>r\<in>set (rows s). to_id t \<noteq> Some (userID r)) \<longrightarrow>
        read to_id s f = Render ''attendance.html'' [])"
proof (intro conjI ballI impI)
  from assms(2) have f: "f \<noteq> []" "form_get f ''userid'' = PyStr t"
    by (auto simp: form_get_def)
  {
    fix po assume po: "po \<in> set (rows s)" "to_id t = Some (userID po)"
    then have "key_matches to_id (userID po) (PyStr t)" by (simp add: key_matches_def)
    with assms(1) po(1) have "user_by_id to_id s (PyStr t) = Some po"
      by (rule user_by_id_found)
    with f show "read to_id s f = Render ''attendance.html'' [School_read po]"
      by (simp add: read_def)
  next
    assume "\<forall>r\<in>set (rows s). to_id t \<noteq> Some (userID r)"
    then have "user_by_id to_id s (PyStr t) = None"
      by (intro user_by_id_absent) (simp add: key_matches_def)
    with f show "read to_id s f = Render ''attendance.html'' []"
      by (simp add: read_def)
  }
qed

theorem read_one_row_or_none_witness:
  "wf_store tester_store
   \<and> read digits_to_id tester_store [(''userid'', ''5'')]
      = Render ''attendance.html'' [School_read fred]
   \<and> read digits_to_id tester_store [(''userid'', ''12'')] = Render ''attendance.html'' []"
proof -
  have a: "wf_store tester_store" by code_simp
  have five: "digits_to_id ''5'' = Some (userID fred)" by code_simp
  have m: "fred \<in> set (rows tester_store)" by (simp add: tester_store_def)
  have g: "\<forall>r\<in>set (rows tester_store). digits_to_id ''12'' \<noteq> Some (userID r)" by code_simp
  have r1: "read digits_to_id tester_store [(''userid'', ''5'')]
      = Render ''attendance.html'' [School_read fred]"
    using read_one_row_or_none [OF a, of "[(''userid'', ''5'')]" "''5''" digits_to_id] m five
    by simp
  have r2: "read digits_to_id tester_store [(''userid'', ''12'')] = Render ''attendance.html'' []"
    using read_one_row_or_none [OF a, of "[(''userid'', ''12'')]" "''12''" digits_to_id] g
    by simp
  from a r1 r2 show ?thesis by (intro conjI)
qed

section \<open>Empty forms\<close>

text \<open>
  C10. With an empty form body the page controller's create, update and delete leave the
  store as it was and answer with the redirect to the listing.
\<close>

theorem empty_form_changes_nothing:
  "create valid s [] = (s, Redirect ''attendance'')
   \<and> update to_id s [] = (s, Redirect ''attendance'')
   \<and> delete to_id s [] = (s, Redirect ''attendance'')"
  by (simp add: create_def update_def delete_def)

end
